theory Spec2Isabelle
  imports Main "HOL-Library.Word"
begin

unbundle bit_operations_syntax

section \<open>Exceptions, results and events\<close>

text \<open>
  The exceptions that \<^verbatim>\<open>websockets/server.py\<close> raises or lets through.
  \<^verbatim>\<open>InvalidHandshake(msg) from exc\<close> keeps its cause. Both \<^verbatim>\<open>except\<close>
  clauses of the module are \<^verbatim>\<open>except Exception\<close>, so the model separates
  the instances of \<^verbatim>\<open>Exception\<close> from the other instances of \<^verbatim>\<open>BaseException\<close>
  (\<^verbatim>\<open>KeyboardInterrupt\<close>, \<^verbatim>\<open>SystemExit\<close>, \<^verbatim>\<open>GeneratorExit\<close>).
\<close>

text \<open>Modelled from the spec: the class \<^verbatim>\<open>InvalidHandshake\<close> is declared in
  \<^verbatim>\<open>websockets/exceptions.py\<close>, which is not among the sources. The specification has it
  as an error that the connection handler catches and logs, so it is an instance of
  \<^verbatim>\<open>Exception\<close>, as the built-in \<^verbatim>\<open>NotImplementedError\<close> and \<^verbatim>\<open>AssertionError\<close> are.\<close>

datatype exn =
    NotImplementedError string
  | AssertionError string
  | InvalidHandshake string "exn option"
  | OtherException string
  | OtherBaseException string

fun is_Exception :: "exn \<Rightarrow> bool" where
  "is_Exception (OtherBaseException _) = False"
| "is_Exception _ = True"

text \<open>
  The outcome of a coroutine driven with \<^verbatim>\<open>yield from\<close>: it returns a value, it raises,
  or it never completes (it waits for ever on its stream or future).
\<close>

datatype 'a result = Returns 'a | Raises exn | Blocks

text \<open>
  Everything observable that happens to a connection: operations on the transport, on the
  logger, on the attributes \<^verbatim>\<open>state\<close> and \<^verbatim>\<open>opening_handshake\<close>, and the calls of
  the two coroutines that are not part of \<^verbatim>\<open>server.py\<close> (the user's handler and the
  closing handshake \<^verbatim>\<open>close\<close> of the base class).
\<close>

datatype event =
    TransportWrite string
  | TransportClose
  | StateSet string
  | OpeningHandshakeSetResult bool
  | LoggerWarning string
  | WsHandlerCall string
  | CloseCall

text \<open>Who performed an event: the code of \<^verbatim>\<open>server.py\<close>, the user's handler, or
  the inherited \<^verbatim>\<open>close\<close> coroutine.\<close>

datatype actor = Server | WsHandler | CloseCoro

record conn =
  state :: string
  opening_handshake :: "bool option"
  trace :: "(actor \<times> event) list"

text \<open>What a coroutine outside \<^verbatim>\<open>server.py\<close> did to the connection before it
  completed, and how it completed.\<close>

record outcome =
  did :: "event list"
  completion :: "unit result"

type_synonym headers = "string \<rightharpoonup> string"

text \<open>The user's handler, \<^verbatim>\<open>ws_handler(self, uri)\<close>: a coroutine handed the connection and
  the request URI.\<close>

type_synonym handler_fn = "conn \<Rightarrow> string \<Rightarrow> outcome"

text \<open>
  The collaborators of \<^verbatim>\<open>server.py\<close> whose code lives in other modules
  (\<^verbatim>\<open>.http\<close>, \<^verbatim>\<open>.handshake\<close>, \<^verbatim>\<open>.protocol\<close>), taken as parameters:
  \<^item> \<open>http_read_request\<close> is the outcome of \<^verbatim>\<open>read_request(self.stream)\<close>; the coroutine
    is handed the stream reader only, so it cannot touch the transport or the
    connection's attributes;
  \<^item> \<open>handshake_check_request\<close> is \<^verbatim>\<open>check_request\<close>, handed the closure
    \<^verbatim>\<open>get_header\<close> only;
  \<^item> \<open>handshake_build_response\<close> is \<^verbatim>\<open>build_response\<close>, handed the closure
    \<^verbatim>\<open>set_header\<close> and the key; the response list that \<^verbatim>\<open>set_header\<close> appends to is
    threaded through it;
  \<^item> \<open>http_USER_AGENT\<close> is the constant \<^verbatim>\<open>USER_AGENT\<close>;
  \<^item> \<open>protocol_close\<close> is the coroutine \<^verbatim>\<open>WebSocketCommonProtocol.close\<close>.
\<close>

record env =
  http_read_request :: "(string \<times> headers) result"
  handshake_check_request :: "(string \<Rightarrow> string) \<Rightarrow> exn + string"
  handshake_build_response ::
    "(string \<Rightarrow> string \<Rightarrow> string list \<Rightarrow> string list) \<Rightarrow> string \<Rightarrow> string list
       \<Rightarrow> exn + string list"
  http_USER_AGENT :: string
  protocol_close :: "conn \<Rightarrow> outcome"

text \<open>The protocol object: the handler given to \<^verbatim>\<open>__init__\<close> and the connection.\<close>

record protocol =
  ws_handler :: "handler_fn option"
  conn :: conn

section \<open>The connection\<close>

text \<open>One operation on the connection: it is appended to the trace, and the two attribute
  assignments take effect.\<close>

fun perform :: "actor \<Rightarrow> event \<Rightarrow> conn \<Rightarrow> conn" where
  "perform who (StateSet s) c = c\<lparr>state := s, trace := trace c @ [(who, StateSet s)]\<rparr>"
| "perform who (OpeningHandshakeSetResult b) c =
     c\<lparr>opening_handshake := Some b, trace := trace c @ [(who, OpeningHandshakeSetResult b)]\<rparr>"
| "perform who ev c = c\<lparr>trace := trace c @ [(who, ev)]\<rparr>"

fun perform_all :: "actor \<Rightarrow> event list \<Rightarrow> conn \<Rightarrow> conn" where
  "perform_all who [] c = c"
| "perform_all who (ev # evs) c = perform_all who evs (perform who ev c)"

text \<open>Driving a coroutine that is not part of \<^verbatim>\<open>server.py\<close>.\<close>

definition yield_from :: "actor \<Rightarrow> outcome \<Rightarrow> conn \<Rightarrow> unit result \<times> conn" where
  "yield_from who out c = (completion out, perform_all who (did out) c)"

text \<open>Modelled from the spec: the attribute \<^verbatim>\<open>opening_handshake\<close> is created by the base
  class \<^verbatim>\<open>WebSocketCommonProtocol\<close>, which is not among the sources. It is the
  handshake-completion signal of the specification: pending (\<open>None\<close>) on a new connection,
  resolved by \<^verbatim>\<open>set_result\<close>. The state of a new connection is the class attribute
  \<^verbatim>\<open>state = 'CONNECTING'\<close> of \<^verbatim>\<open>server.py\<close>, and nothing has happened to it yet.\<close>

definition new_conn :: conn where
  "new_conn = \<lparr>state = ''CONNECTING'', opening_handshake = None, trace = []\<rparr>"

definition CRLF :: string where
  "CRLF = [CHR 0x0D, CHR 0x0A]"

text \<open>\<^verbatim>\<open>sep.join(xs)\<close>\<close>

fun join :: "string \<Rightarrow> string list \<Rightarrow> string" where
  "join sep [] = []"
| "join sep [x] = x"
| "join sep (x # y # ys) = x @ sep @ join sep (y # ys)"

text \<open>\<^verbatim>\<open>set_header = lambda k, v: response.append('{}: {}'.format(k, v))\<close>\<close>

definition set_header :: "string \<Rightarrow> string \<Rightarrow> string list \<Rightarrow> string list" where
  "set_header k v response = response @ [k @ '': '' @ v]"

text \<open>\<^verbatim>\<open>get_header = lambda k: headers.get(k, '')\<close>\<close>

definition get_header :: "headers \<Rightarrow> string \<Rightarrow> string" where
  "get_header hdrs k = (case hdrs k of None \<Rightarrow> [] | Some v \<Rightarrow> v)"

section \<open>The opening handshake\<close>

definition handshake :: "env \<Rightarrow> conn \<Rightarrow> string result \<times> conn" where
  "handshake e self =
     (case http_read_request e of
        Blocks \<Rightarrow> (Blocks, self)
      | Raises exc \<Rightarrow>
          if is_Exception exc
          then (Raises (InvalidHandshake ''Malformed HTTP message'' (Some exc)), self)
          else (Raises exc, self)
      | Returns (uri, hdrs) \<Rightarrow>
          (case handshake_check_request e (get_header hdrs) of
             Inl exc \<Rightarrow> (Raises exc, self)
           | Inr key \<Rightarrow>
               (let response = [''HTTP/1.1 101 Switching Protocols''];
                    response = set_header ''Server'' (http_USER_AGENT e) response
                in case handshake_build_response e set_header key response of
                     Inl exc \<Rightarrow> (Raises exc, self)
                   | Inr response \<Rightarrow>
                       (let response = response @ [CRLF];
                            response = join CRLF response;
                            self = perform Server (TransportWrite response) self;
                            self = perform Server (StateSet ''OPEN'') self;
                            self = perform Server (OpeningHandshakeSetResult True) self
                        in (Returns uri, self)))))"

section \<open>The connection handler\<close>

text \<open>\<^verbatim>\<open>yield from self.ws_handler(self, uri)\<close> and \<^verbatim>\<open>yield from self.close()\<close>.\<close>

definition run_ws_handler :: "handler_fn \<Rightarrow> string \<Rightarrow> conn \<Rightarrow> unit result \<times> conn" where
  "run_ws_handler h uri self =
     (let self = perform Server (WsHandlerCall uri) self
      in yield_from WsHandler (h self uri) self)"

definition run_close :: "env \<Rightarrow> conn \<Rightarrow> unit result \<times> conn" where
  "run_close e self =
     (let self = perform Server CloseCall self
      in yield_from CloseCoro (protocol_close e self) self)"

text \<open>The body of the \<^verbatim>\<open>try\<close> block of \<^verbatim>\<open>handler\<close>.\<close>

definition handler_body :: "env \<Rightarrow> protocol \<Rightarrow> unit result \<times> conn" where
  "handler_body e self =
     (case ws_handler self of
        None \<Rightarrow> (Raises (NotImplementedError ''No handler defined''), conn self)
      | Some h \<Rightarrow>
          (case handshake e (conn self) of
             (Blocks, c) \<Rightarrow> (Blocks, c)
           | (Raises exc, c) \<Rightarrow> (Raises exc, c)
           | (Returns uri, c) \<Rightarrow>
               (case run_ws_handler h uri c of
                  (Blocks, c) \<Rightarrow> (Blocks, c)
                | (Raises exc, c) \<Rightarrow> (Raises exc, c)
                | (Returns _, c) \<Rightarrow> run_close e c)))"

text \<open>The body of the \<^verbatim>\<open>except Exception\<close> clause of \<^verbatim>\<open>handler\<close>.\<close>

definition except_clause :: "conn \<Rightarrow> conn" where
  "except_clause self =
     (let self = perform Server (LoggerWarning ''Exception in connection handler'') self
      in perform Server TransportClose self)"

text \<open>\<^verbatim>\<open>handler\<close>: an instance of \<^verbatim>\<open>Exception\<close> raised in the \<^verbatim>\<open>try\<close> block is
  caught, and the coroutine returns; anything else goes through.\<close>

definition handler :: "env \<Rightarrow> protocol \<Rightarrow> unit result \<times> conn" where
  "handler e self =
     (case handler_body e self of
        (Raises exc, c) \<Rightarrow>
          if is_Exception exc then (Returns (), except_clause c) else (Raises exc, c)
      | r \<Rightarrow> r)"

text \<open>\<^verbatim>\<open>__init__\<close>: the handler is stored as given (\<^verbatim>\<open>None\<close> by default); the
  connection is new.\<close>

definition WebSocketServerProtocol :: "handler_fn option \<Rightarrow> protocol" where
  "WebSocketServerProtocol h = \<lparr>ws_handler = h, conn = new_conn\<rparr>"


section \<open>The server\<close>

text \<open>
  \<^verbatim>\<open>serve\<close>: the two assertions, then the event loop's \<^verbatim>\<open>create_server\<close>, a
  parameter that is handed the protocol factory, the host and the port, and transforms the
  state \<open>w\<close> of the event loop (its bound sockets). The arguments \<^verbatim>\<open>protocols\<close> and
  \<^verbatim>\<open>extensions\<close> are sequences, false when empty. Assertions are enabled, as they are
  unless the interpreter runs with \<^verbatim>\<open>-O\<close>.
\<close>

definition serve ::
  "handler_fn option \<Rightarrow> 'h \<Rightarrow> 'p \<Rightarrow> 'a list \<Rightarrow> 'b list \<Rightarrow> (handler_fn option \<Rightarrow> protocol)
     \<Rightarrow> ((unit \<Rightarrow> protocol) \<Rightarrow> 'h \<Rightarrow> 'p \<Rightarrow> 'w \<Rightarrow> 's result \<times> 'w) \<Rightarrow> 'w \<Rightarrow> 's result \<times> 'w" where
  "serve h host port protocols extensions klass create_server w =
     (if protocols \<noteq> [] then (Raises (AssertionError ''protocols aren't supported''), w)
      else if extensions \<noteq> [] then (Raises (AssertionError ''extensions aren't supported''), w)
      else create_server (\<lambda>_. klass h) host port w)"

section \<open>The accept token\<close>

text \<open>
  The two library functions that the accept token is made of: \<^verbatim>\<open>hashlib.sha1\<close>, that is
  SHA-1 as FIPS 180-4 defines it, on bytes and with 32-bit words, and
  \<^verbatim>\<open>base64.b64encode\<close>, the base64 encoding of RFC 4648 with padding.
\<close>

type_synonym byte = "8 word"
type_synonym u32 = "32 word"

definition encode :: "string \<Rightarrow> byte list" where
  "encode s = map of_char s"

definition rotl :: "nat \<Rightarrow> u32 \<Rightarrow> u32" where
  "rotl n x = push_bit n x OR drop_bit (32 - n) x"

definition be64 :: "nat \<Rightarrow> byte list" where
  "be64 n = map (\<lambda>i. of_nat (n div 2 ^ (8 * i) mod 256)) [7, 6, 5, 4, 3, 2, 1, 0]"

definition sha1_pad :: "byte list \<Rightarrow> byte list" where
  "sha1_pad msg =
     msg @ [0x80] @ replicate ((119 - length msg mod 64) mod 64) 0 @ be64 (8 * length msg)"

fun be32s :: "byte list \<Rightarrow> u32 list" where
  "be32s (a # b # c # d # rest) =
     (push_bit 24 (ucast a) OR push_bit 16 (ucast b) OR push_bit 8 (ucast c) OR ucast d)
       # be32s rest"
| "be32s _ = []"

fun sha1_schedule :: "nat \<Rightarrow> u32 list \<Rightarrow> u32 list" where
  "sha1_schedule 0 ws = ws"
| "sha1_schedule (Suc n) ws =
     sha1_schedule n (rotl 1 (ws ! 2 XOR ws ! 7 XOR ws ! 13 XOR ws ! 15) # ws)"

definition message_schedule :: "byte list \<Rightarrow> u32 list" where
  "message_schedule block = rev (sha1_schedule 64 (rev (be32s block)))"

definition sha1_f :: "nat \<Rightarrow> u32 \<Rightarrow> u32 \<Rightarrow> u32 \<Rightarrow> u32" where
  "sha1_f t b c d =
     (if t < 20 then (b AND c) OR (NOT b AND d)
      else if t < 40 then b XOR c XOR d
      else if t < 60 then (b AND c) OR (b AND d) OR (c AND d)
      else b XOR c XOR d)"

definition sha1_k :: "nat \<Rightarrow> u32" where
  "sha1_k t = (if t < 20 then 0x5A827999 else if t < 40 then 0x6ED9EBA1
          else if t < 60 then 0x8F1BBCDC else 0xCA62C1D6)"

type_synonym hstate = "u32 \<times> u32 \<times> u32 \<times> u32 \<times> u32"

fun sha1_rounds :: "nat \<Rightarrow> u32 list \<Rightarrow> hstate \<Rightarrow> hstate" where
  "sha1_rounds t [] s = s"
| "sha1_rounds t (w # ws) (a, b, c, d, e) =
     sha1_rounds (t + 1) ws (rotl 5 a + sha1_f t b c d + e + sha1_k t + w, a, rotl 30 b, c, d)"

definition sha1_compress :: "hstate \<Rightarrow> byte list \<Rightarrow> hstate" where
  "sha1_compress h block =
     (case sha1_rounds 0 (message_schedule block) h of
        (a, b, c, d, e) \<Rightarrow>
          (case h of (h0, h1, h2, h3, h4) \<Rightarrow> (h0 + a, h1 + b, h2 + c, h3 + d, h4 + e)))"

function sha1_blocks :: "byte list \<Rightarrow> hstate \<Rightarrow> hstate" where
  "sha1_blocks bs h = (if bs = [] then h else sha1_blocks (drop 64 bs) (sha1_compress h (take 64 bs)))"
  by pat_completeness auto
termination
  by (relation "measure (\<lambda>(bs, h). length bs)") auto

declare sha1_blocks.simps [simp del]

definition be32 :: "u32 \<Rightarrow> byte list" where
  "be32 w = [ucast (drop_bit 24 w), ucast (drop_bit 16 w), ucast (drop_bit 8 w), ucast w]"

definition sha1 :: "byte list \<Rightarrow> byte list" where
  "sha1 msg =
     (case sha1_blocks (sha1_pad msg) (0x67452301, 0xEFCDAB89, 0x98BADCFE, 0x10325476, 0xC3D2E1F0) of
        (h0, h1, h2, h3, h4) \<Rightarrow> be32 h0 @ be32 h1 @ be32 h2 @ be32 h3 @ be32 h4)"

definition b64_alphabet :: string where
  "b64_alphabet = ''ABCDEFGHIJKLMNOPQRSTUVWXYZabcdefghijklmnopqrstuvwxyz0123456789+/''"

definition b64_char :: "byte \<Rightarrow> char" where
  "b64_char i = b64_alphabet ! unat i"

fun b64encode :: "byte list \<Rightarrow> string" where
  "b64encode [] = []"
| "b64encode [a] =
     [b64_char (drop_bit 2 a), b64_char (push_bit 4 (a AND 3)), CHR ''='', CHR ''='']"
| "b64encode [a, b] =
     [b64_char (drop_bit 2 a), b64_char (push_bit 4 (a AND 3) OR drop_bit 4 b),
      b64_char (push_bit 2 (b AND 15)), CHR ''='']"
| "b64encode (a # b # c # rest) =
     [b64_char (drop_bit 2 a), b64_char (push_bit 4 (a AND 3) OR drop_bit 4 b),
      b64_char (push_bit 2 (b AND 15) OR drop_bit 6 c), b64_char (c AND 63)] @ b64encode rest"

text \<open>Modelled from the spec: the Accept-Token Calculator of \<^verbatim>\<open>websockets/handshake.py\<close>,
  which is not among the sources. The key is concatenated with the fixed GUID of the
  protocol, the SHA-1 digest of the bytes of the concatenation is computed, and the digest is
  base64-encoded.\<close>

definition GUID :: string where
  "GUID = ''258EAFA5-E914-47DA-95CA-C5AB0DC85B11''"

definition accept_token :: "string \<Rightarrow> string" where
  "accept_token key = b64encode (sha1 (encode (key @ GUID)))"


section \<open>The helpers of the handshake module\<close>

text \<open>\<^verbatim>\<open>str.lower\<close> on ASCII.\<close>

definition lower_char :: "char \<Rightarrow> char" where
  "lower_char c =
     (case map_of (zip ''ABCDEFGHIJKLMNOPQRSTUVWXYZ'' ''abcdefghijklmnopqrstuvwxyz'') c of
        None \<Rightarrow> c
      | Some l \<Rightarrow> l)"

definition lower :: "string \<Rightarrow> string" where
  "lower s = map lower_char s"

text \<open>Modelled from the spec: \<^verbatim>\<open>check_request\<close> of \<^verbatim>\<open>websockets/handshake.py\<close>, which is
  not among the sources. The Request Validator of the specification, given the header
  lookup (empty string when the header is absent): the \<^verbatim>\<open>Upgrade\<close> header must name the
  WebSocket protocol, case-insensitively; \<^verbatim>\<open>Sec-WebSocket-Key\<close> must be present and
  non-empty; \<^verbatim>\<open>Sec-WebSocket-Version\<close> must be 13 when the optional version check is
  made (\<open>check_version\<close>). It fails with an invalid-handshake error that carries the violated
  requirement, and otherwise returns the raw key.
\<close>

definition check_request :: "bool \<Rightarrow> (string \<Rightarrow> string) \<Rightarrow> exn + string" where
  "check_request check_version get_hdr =
     (if lower (get_hdr ''Upgrade'') \<noteq> ''websocket''
      then Inl (InvalidHandshake ''Upgrade'' None)
      else if get_hdr ''Sec-WebSocket-Key'' = []
      then Inl (InvalidHandshake ''Sec-WebSocket-Key'' None)
      else if check_version \<and> get_hdr ''Sec-WebSocket-Version'' \<noteq> ''13''
      then Inl (InvalidHandshake ''Sec-WebSocket-Version'' None)
      else Inr (get_hdr ''Sec-WebSocket-Key''))"

text \<open>Modelled from the spec: \<^verbatim>\<open>build_response\<close> of \<^verbatim>\<open>websockets/handshake.py\<close>, which is
  not among the sources. The Response Builder of the specification: after the status line
  and the \<^verbatim>\<open>Server\<close> header that \<^verbatim>\<open>server.py\<close> writes itself, the headers
  \<^verbatim>\<open>Upgrade: websocket\<close>, \<^verbatim>\<open>Connection: Upgrade\<close> and \<^verbatim>\<open>Sec-WebSocket-Accept\<close> with the
  accept token, in the order of the specified wire format. It has no failure mode.
\<close>

definition build_response ::
  "(string \<Rightarrow> string \<Rightarrow> string list \<Rightarrow> string list) \<Rightarrow> string \<Rightarrow> string list
     \<Rightarrow> exn + string list" where
  "build_response set_hdr key response =
     (let response = set_hdr ''Upgrade'' ''websocket'' response;
          response = set_hdr ''Connection'' ''Upgrade'' response;
          response = set_hdr ''Sec-WebSocket-Accept'' (accept_token key) response
      in Inr response)"

section \<open>Reading a trace\<close>

text \<open>How often \<open>who\<close> closed the transport, and how often it was closed at all.\<close>

definition closes_by :: "actor \<Rightarrow> (actor \<times> event) list \<Rightarrow> nat" where
  "closes_by who tr = length (filter (\<lambda>x. x = (who, TransportClose)) tr)"


fun is_TransportWrite :: "event \<Rightarrow> bool" where
  "is_TransportWrite (TransportWrite _) = True"
| "is_TransportWrite _ = False"

text \<open>How often \<^verbatim>\<open>server.py\<close> itself wrote to the transport: its only write is the
  handshake response.\<close>

definition response_writes :: "(actor \<times> event) list \<Rightarrow> nat" where
  "response_writes tr = length (filter (\<lambda>x. fst x = Server \<and> is_TransportWrite (snd x)) tr)"

text \<open>The events of \<^verbatim>\<open>server.py\<close> itself, in order.\<close>

definition server_events :: "(actor \<times> event) list \<Rightarrow> event list" where
  "server_events tr = map snd (filter (\<lambda>x. fst x = Server) tr)"

section \<open>A sample connection\<close>

text \<open>The opening handshake of RFC 6455, section 1.2, and collaborators to run it with.\<close>

definition sample_headers :: headers where
  "sample_headers =
     [''Host'' \<mapsto> ''server.example.com'', ''Upgrade'' \<mapsto> ''websocket'',
      ''Connection'' \<mapsto> ''Upgrade'', ''Sec-WebSocket-Key'' \<mapsto> ''dGhlIHNhbXBsZSBub25jZQ=='',
      ''Sec-WebSocket-Version'' \<mapsto> ''13'']"

text \<open>A closing handshake that sends its close frame and returns, the transport left to
  the peer; one that times out; a handler that sends one frame; a handler that raises.\<close>

definition quiet_close :: "conn \<Rightarrow> outcome" where
  "quiet_close self =
     \<lparr>did = [TransportWrite [CHR 0x88, CHR 0x00], StateSet ''CLOSING''], completion = Returns ()\<rparr>"

definition failing_close :: "conn \<Rightarrow> outcome" where
  "failing_close self =
     \<lparr>did = [TransportWrite [CHR 0x88, CHR 0x00], StateSet ''CLOSING''],
      completion = Raises (OtherException ''TimeoutError'')\<rparr>"

definition hello_handler :: handler_fn where
  "hello_handler self uri =
     \<lparr>did = [TransportWrite ([CHR 0x81, CHR 0x05] @ ''Hello'')], completion = Returns ()\<rparr>"

definition failing_handler :: handler_fn where
  "failing_handler self uri = \<lparr>did = [], completion = Raises (OtherException ''ValueError'')\<rparr>"

definition sample_env :: env where
  "sample_env =
     \<lparr>http_read_request = Returns (''/chat'', sample_headers),
      handshake_check_request = check_request True,
      handshake_build_response = build_response,
      http_USER_AGENT = ''Python/3.3 websockets/0.1'',
      protocol_close = quiet_close\<rparr>"

text \<open>The same with a request that lacks its key, and with a request that cannot be parsed.\<close>

definition keyless_env :: env where
  "keyless_env =
     sample_env\<lparr>http_read_request :=
       Returns (''/chat'', [''Host'' \<mapsto> ''server.example.com'', ''Upgrade'' \<mapsto> ''websocket'',
                           ''Connection'' \<mapsto> ''Upgrade'', ''Sec-WebSocket-Version'' \<mapsto> ''13''])\<rparr>"

definition malformed_env :: env where
  "malformed_env = sample_env\<lparr>http_read_request := Raises (OtherException ''ValueError'')\<rparr>"

text \<open>The response to the sample request.\<close>

definition sample_response :: string where
  "sample_response =
     ''HTTP/1.1 101 Switching Protocols'' @ CRLF @
     ''Server: Python/3.3 websockets/0.1'' @ CRLF @
     ''Upgrade: websocket'' @ CRLF @
     ''Connection: Upgrade'' @ CRLF @
     ''Sec-WebSocket-Accept: s3pPLMBiTxaQ9kYGzzhZRbK+xOo='' @ CRLF @ CRLF"

text \<open>An event loop that binds one socket for each server it creates.\<close>

definition sample_create_server ::
  "(unit \<Rightarrow> protocol) \<Rightarrow> string \<Rightarrow> nat \<Rightarrow> (string \<times> nat) list
     \<Rightarrow> (unit \<Rightarrow> protocol) result \<times> (string \<times> nat) list" where
  "sample_create_server factory host port w = (Returns factory, w @ [(host, port)])"

section \<open>The accept token of the sample key\<close>

text \<open>Unfolding rules for evaluating the recursions on numerals.\<close>

lemma schedule_unfold:
  "sha1_schedule n ws = (if n = 0 then ws
     else sha1_schedule (n - 1) (rotl 1 (ws ! 2 XOR ws ! 7 XOR ws ! 13 XOR ws ! 15) # ws))"
  by (cases n) simp_all

lemma replicate_unfold: "replicate n x = (if n = 0 then [] else x # replicate (n - 1) x)"
  by (cases n) simp_all

lemma rounds_append:
  "sha1_rounds t (xs @ ys) s = sha1_rounds (t + length xs) ys (sha1_rounds t xs s)"
proof (induction xs arbitrary: t s)
  case Nil
  show ?case by simp
next
  case (Cons x xs)
  obtain a b c d e where s: "s = (a, b, c, d, e)"
    by (cases s)
  show ?case
    unfolding s by (simp add: Cons.IH)
qed

lemma rounds_chunks:
  assumes "length w1 = 20" and "length w2 = 20" and "length w3 = 20"
    and "sha1_rounds 0 w1 s0 = s1" and "sha1_rounds 20 w2 s1 = s2"
    and "sha1_rounds 40 w3 s2 = s3" and "sha1_rounds 60 w4 s3 = s4"
  shows "sha1_rounds 0 (w1 @ w2 @ w3 @ w4) s0 = s4"
  using assms by (simp add: rounds_append del: sha1_rounds.simps)

subsection \<open>The sample key of RFC 6455, step by step\<close>

lemma sample_encode:
  "encode (''dGhlIHNhbXBsZSBub25jZQ=='' @ GUID) =
     [100, 71, 104, 108, 73, 72, 78, 104, 98, 88, 66, 115, 90, 83, 66, 117, 98, 50, 53, 106,
     90, 81, 61, 61, 50, 53, 56, 69, 65, 70, 65, 53, 45, 69, 57, 49, 52, 45, 52, 55, 68, 65,
     45, 57, 53, 67, 65, 45, 67, 53, 65, 66, 48, 68, 67, 56, 53, 66, 49, 49]"
  by (simp add: encode_def GUID_def)

lemma sample_pad:
  "sha1_pad [100, 71, 104, 108, 73, 72, 78, 104, 98, 88, 66, 115, 90, 83, 66, 117, 98, 50, 53, 106,
     90, 81, 61, 61, 50, 53, 56, 69, 65, 70, 65, 53, 45, 69, 57, 49, 52, 45, 52, 55, 68, 65,
     45, 57, 53, 67, 65, 45, 67, 53, 65, 66, 48, 68, 67, 56, 53, 66, 49, 49] =
     [100, 71, 104, 108, 73, 72, 78, 104, 98, 88, 66, 115, 90, 83, 66, 117, 98, 50, 53, 106,
     90, 81, 61, 61, 50, 53, 56, 69, 65, 70, 65, 53, 45, 69, 57, 49, 52, 45, 52, 55, 68, 65,
     45, 57, 53, 67, 65, 45, 67, 53, 65, 66, 48, 68, 67, 56, 53, 66, 49, 49, 128, 0, 0, 0,
     0, 0, 0, 0, 0, 0, 0, 0, 0, 0, 0, 0, 0, 0, 0, 0, 0, 0, 0, 0, 0, 0, 0, 0, 0, 0, 0, 0, 0,
     0, 0, 0, 0, 0, 0, 0, 0, 0, 0, 0, 0, 0, 0, 0, 0, 0, 0, 0, 0, 0, 0, 0, 0, 0, 0, 0, 0, 0,
     0, 0, 0, 0, 1, 224]"
  by (simp add: sha1_pad_def be64_def replicate_unfold)

lemma sample_schedule_1:
  "message_schedule
     [100, 71, 104, 108, 73, 72, 78, 104, 98, 88, 66, 115, 90, 83, 66, 117, 98, 50, 53, 106,
     90, 81, 61, 61, 50, 53, 56, 69, 65, 70, 65, 53, 45, 69, 57, 49, 52, 45, 52, 55, 68, 65,
     45, 57, 53, 67, 65, 45, 67, 53, 65, 66, 48, 68, 67, 56, 53, 66, 49, 49, 128, 0, 0, 0] =
     [1682401388, 1229475432, 1649951347, 1515405941, 1647457642, 1515273533, 842348613,
     1095123253, 759511345, 875377719, 1145122105, 893600045, 1127563586, 809780024,
     893530417, 2147483648, 909942828, 619188790, 2287383617, 117128338] @
     [1874115766, 1175131875, 1502747054, 901747561, 845628814, 4163435780, 1966773927,
     1664546322, 3285607299, 116098809, 1941241154, 2768487864, 365801013, 1394499013,
     1874245584, 1813439660, 1306343101, 903047494, 3903753116, 1251162832] @
     [3464898740, 1096661662, 663941193, 2392553959, 2042897861, 1666430109, 10043928,
     2325024465, 2942110617, 4254630878, 517537771, 4027055912, 1113470580, 93729216,
     2909551665, 2248896983, 2277492040, 1046804781, 2366289761, 887221813] @
     [181358856, 3266607578, 1821587210, 4153629601, 3910963649, 3201394082, 1279150782,
     1356423736, 3059252702, 439281382, 758339734, 4081671435, 4077783581, 852382809,
     1902502840, 2869297044, 3314851595, 3168292426, 124912530, 4282382342]"
  by (simp add: message_schedule_def rotl_def schedule_unfold del: sha1_schedule.simps)

lemma sample_schedule_2:
  "message_schedule
     [0, 0, 0, 0, 0, 0, 0, 0, 0, 0, 0, 0, 0, 0, 0, 0, 0, 0, 0, 0, 0, 0, 0, 0, 0, 0, 0, 0, 0,
     0, 0, 0, 0, 0, 0, 0, 0, 0, 0, 0, 0, 0, 0, 0, 0, 0, 0, 0, 0, 0, 0, 0, 0, 0, 0, 0, 0, 0,
     0, 0, 0, 0, 1, 224] =
     [0, 0, 0, 0, 0, 0, 0, 0, 0, 0, 0, 0, 0, 0, 0, 480, 0, 0, 960, 0] @
     [0, 1920, 0, 960, 3840, 0, 0, 7680, 0, 3264, 15360, 1088, 0, 30720, 3840, 13056, 61440,
     3840, 0, 126720] @
     [0, 52224, 245760, 17280, 0, 495360, 65280, 206464, 983040, 61440, 13056, 2031360, 0,
     833536, 3932160, 264960, 61440, 7929600, 1044480, 3376896] @
     [15728640, 1032960, 61440, 32488192, 0, 13369344, 62976000, 4423680, 0, 126812160,
     16711680, 52862464, 251658240, 15790080, 3357696, 520062976, 0, 213420032, 1006694400,
     67783168]"
  by (simp add: message_schedule_def rotl_def schedule_unfold del: sha1_schedule.simps)

lemma sample_rounds_1_0:
  "sha1_rounds 0
     [1682401388, 1229475432, 1649951347, 1515405941, 1647457642, 1515273533, 842348613,
     1095123253, 759511345, 875377719, 1145122105, 893600045, 1127563586, 809780024,
     893530417, 2147483648, 909942828, 619188790, 2287383617, 117128338]
     (1732584193, 4023233417, 2562383102, 271733878, 3285377520) =
     (152746364, 2378502326, 3752774234, 1979104605, 671166746)"
  by (simp add: rotl_def sha1_f_def sha1_k_def)

lemma sample_rounds_1_20:
  "sha1_rounds 20
     [1874115766, 1175131875, 1502747054, 901747561, 845628814, 4163435780, 1966773927,
     1664546322, 3285607299, 116098809, 1941241154, 2768487864, 365801013, 1394499013,
     1874245584, 1813439660, 1306343101, 903047494, 3903753116, 1251162832]
     (152746364, 2378502326, 3752774234, 1979104605, 671166746) =
     (732088382, 3498479745, 438141449, 3543353481, 662299890)"
  by (simp add: rotl_def sha1_f_def sha1_k_def)

lemma sample_rounds_1_40:
  "sha1_rounds 40
     [3464898740, 1096661662, 663941193, 2392553959, 2042897861, 1666430109, 10043928,
     2325024465, 2942110617, 4254630878, 517537771, 4027055912, 1113470580, 93729216,
     2909551665, 2248896983, 2277492040, 1046804781, 2366289761, 887221813]
     (732088382, 3498479745, 438141449, 3543353481, 662299890) =
     (1215486042, 3531927907, 2198413067, 465420221, 2676265148)"
  by (simp add: rotl_def sha1_f_def sha1_k_def)

lemma sample_rounds_1_60:
  "sha1_rounds 60
     [181358856, 3266607578, 1821587210, 4153629601, 3910963649, 3201394082, 1279150782,
     1356423736, 3059252702, 439281382, 758339734, 4081671435, 4077783581, 852382809,
     1902502840, 2869297044, 3314851595, 3168292426, 124912530, 4282382342]
     (1215486042, 3531927907, 2198413067, 465420221, 2676265148) =
     (4102706214, 2203686369, 633413371, 1246086146, 2591277810)"
  by (simp add: rotl_def sha1_f_def sha1_k_def)

lemma sample_rounds_1:
  "sha1_rounds 0
     ([1682401388, 1229475432, 1649951347, 1515405941, 1647457642, 1515273533, 842348613,
     1095123253, 759511345, 875377719, 1145122105, 893600045, 1127563586, 809780024,
     893530417, 2147483648, 909942828, 619188790, 2287383617, 117128338] @
     [1874115766, 1175131875, 1502747054, 901747561, 845628814, 4163435780, 1966773927,
     1664546322, 3285607299, 116098809, 1941241154, 2768487864, 365801013, 1394499013,
     1874245584, 1813439660, 1306343101, 903047494, 3903753116, 1251162832] @
     [3464898740, 1096661662, 663941193, 2392553959, 2042897861, 1666430109, 10043928,
     2325024465, 2942110617, 4254630878, 517537771, 4027055912, 1113470580, 93729216,
     2909551665, 2248896983, 2277492040, 1046804781, 2366289761, 887221813] @
     [181358856, 3266607578, 1821587210, 4153629601, 3910963649, 3201394082, 1279150782,
     1356423736, 3059252702, 439281382, 758339734, 4081671435, 4077783581, 852382809,
     1902502840, 2869297044, 3314851595, 3168292426, 124912530, 4282382342])
     (1732584193, 4023233417, 2562383102, 271733878, 3285377520) =
     (4102706214, 2203686369, 633413371, 1246086146, 2591277810)"
  by (rule rounds_chunks [OF _ _ _ sample_rounds_1_0 sample_rounds_1_20
      sample_rounds_1_40 sample_rounds_1_60])
    simp_all

lemma sample_rounds_2_0:
  "sha1_rounds 0
     [0, 0, 0, 0, 0, 0, 0, 0, 0, 0, 0, 0, 0, 0, 0, 480, 0, 0, 960, 0]
     (1540323111, 1931952490, 3195796473, 1517820024, 1581688034) =
     (704678737, 790182409, 2626053057, 2394280195, 639335578)"
  by (simp add: rotl_def sha1_f_def sha1_k_def)

lemma sample_rounds_2_20:
  "sha1_rounds 20
     [0, 1920, 0, 960, 3840, 0, 0, 7680, 0, 3264, 15360, 1088, 0, 30720, 3840, 13056, 61440,
     3840, 0, 126720]
     (704678737, 790182409, 2626053057, 2394280195, 639335578) =
     (1869188890, 3338603731, 3730487228, 1601125563, 497322629)"
  by (simp add: rotl_def sha1_f_def sha1_k_def)

lemma sample_rounds_2_40:
  "sha1_rounds 40
     [0, 52224, 245760, 17280, 0, 495360, 65280, 206464, 983040, 61440, 13056, 2031360, 0,
     833536, 3932160, 264960, 61440, 7929600, 1044480, 3376896]
     (1869188890, 3338603731, 3730487228, 1601125563, 497322629) =
     (1443995417, 140423934, 1212818885, 3242250216, 1752014928)"
  by (simp add: rotl_def sha1_f_def sha1_k_def)

lemma sample_rounds_2_60:
  "sha1_rounds 60
     [15728640, 1032960, 61440, 32488192, 0, 13369344, 62976000, 4423680, 0, 126812160,
     16711680, 52862464, 251658240, 15790080, 3357696, 520062976, 0, 213420032, 1006694400,
     67783168]
     (1443995417, 140423934, 1212818885, 3242250216, 1752014928) =
     (1470814213, 1295715756, 3531229709, 1958756557, 1417158664)"
  by (simp add: rotl_def sha1_f_def sha1_k_def)

lemma sample_rounds_2:
  "sha1_rounds 0
     ([0, 0, 0, 0, 0, 0, 0, 0, 0, 0, 0, 0, 0, 0, 0, 480, 0, 0, 960, 0] @
     [0, 1920, 0, 960, 3840, 0, 0, 7680, 0, 3264, 15360, 1088, 0, 30720, 3840, 13056, 61440,
     3840, 0, 126720] @
     [0, 52224, 245760, 17280, 0, 495360, 65280, 206464, 983040, 61440, 13056, 2031360, 0,
     833536, 3932160, 264960, 61440, 7929600, 1044480, 3376896] @
     [15728640, 1032960, 61440, 32488192, 0, 13369344, 62976000, 4423680, 0, 126812160,
     16711680, 52862464, 251658240, 15790080, 3357696, 520062976, 0, 213420032, 1006694400,
     67783168])
     (1540323111, 1931952490, 3195796473, 1517820024, 1581688034) =
     (1470814213, 1295715756, 3531229709, 1958756557, 1417158664)"
  by (rule rounds_chunks [OF _ _ _ sample_rounds_2_0 sample_rounds_2_20
      sample_rounds_2_40 sample_rounds_2_60])
    simp_all

lemma sample_compress_1:
  "sha1_compress (1732584193, 4023233417, 2562383102, 271733878, 3285377520)
     [100, 71, 104, 108, 73, 72, 78, 104, 98, 88, 66, 115, 90, 83, 66, 117, 98, 50, 53, 106,
     90, 81, 61, 61, 50, 53, 56, 69, 65, 70, 65, 53, 45, 69, 57, 49, 52, 45, 52, 55, 68, 65,
     45, 57, 53, 67, 65, 45, 67, 53, 65, 66, 48, 68, 67, 56, 53, 66, 49, 49, 128, 0, 0, 0] =
     (1540323111, 1931952490, 3195796473, 1517820024, 1581688034)"
  unfolding sha1_compress_def sample_schedule_1 sample_rounds_1 by simp

lemma sample_compress_2:
  "sha1_compress (1540323111, 1931952490, 3195796473, 1517820024, 1581688034)
     [0, 0, 0, 0, 0, 0, 0, 0, 0, 0, 0, 0, 0, 0, 0, 0, 0, 0, 0, 0, 0, 0, 0, 0, 0, 0, 0, 0, 0,
     0, 0, 0, 0, 0, 0, 0, 0, 0, 0, 0, 0, 0, 0, 0, 0, 0, 0, 0, 0, 0, 0, 0, 0, 0, 0, 0, 0, 0,
     0, 0, 0, 0, 1, 224] =
     (3011137324, 3227668246, 2432058886, 3476576581, 2998846698)"
  unfolding sha1_compress_def sample_schedule_2 sample_rounds_2 by simp

lemma sample_blocks:
  "sha1_blocks
     [100, 71, 104, 108, 73, 72, 78, 104, 98, 88, 66, 115, 90, 83, 66, 117, 98, 50, 53, 106,
     90, 81, 61, 61, 50, 53, 56, 69, 65, 70, 65, 53, 45, 69, 57, 49, 52, 45, 52, 55, 68, 65,
     45, 57, 53, 67, 65, 45, 67, 53, 65, 66, 48, 68, 67, 56, 53, 66, 49, 49, 128, 0, 0, 0,
     0, 0, 0, 0, 0, 0, 0, 0, 0, 0, 0, 0, 0, 0, 0, 0, 0, 0, 0, 0, 0, 0, 0, 0, 0, 0, 0, 0, 0,
     0, 0, 0, 0, 0, 0, 0, 0, 0, 0, 0, 0, 0, 0, 0, 0, 0, 0, 0, 0, 0, 0, 0, 0, 0, 0, 0, 0, 0,
     0, 0, 0, 0, 1, 224]
     (1732584193, 4023233417, 2562383102, 271733878, 3285377520) =
     (3011137324, 3227668246, 2432058886, 3476576581, 2998846698)"
  by (simp add: sha1_blocks.simps sample_compress_1 sample_compress_2)

lemma sample_sha1:
  "sha1 [100, 71, 104, 108, 73, 72, 78, 104, 98, 88, 66, 115, 90, 83, 66, 117, 98, 50, 53, 106,
     90, 81, 61, 61, 50, 53, 56, 69, 65, 70, 65, 53, 45, 69, 57, 49, 52, 45, 52, 55, 68, 65,
     45, 57, 53, 67, 65, 45, 67, 53, 65, 66, 48, 68, 67, 56, 53, 66, 49, 49] =
     [179, 122, 79, 44, 192, 98, 79, 22, 144, 246, 70, 6, 207, 56, 89, 69, 178, 190, 196, 234]"
  by (simp add: sha1_def sample_pad sample_blocks be32_def)

lemma sample_b64encode:
  "b64encode [179, 122, 79, 44, 192, 98, 79, 22, 144, 246, 70, 6, 207, 56, 89, 69, 178, 190, 196, 234] =
     ''s3pPLMBiTxaQ9kYGzzhZRbK+xOo=''"
  by (simp add: b64_char_def b64_alphabet_def)

lemma sample_accept_token:
  "accept_token ''dGhlIHNhbXBsZSBub25jZQ=='' = ''s3pPLMBiTxaQ9kYGzzhZRbK+xOo=''"
  by (simp only: accept_token_def sample_encode sample_sha1 sample_b64encode)

text \<open>The digest has 160 bits and the token 28 characters, whatever the key.\<close>

lemma length_be32 [simp]: "length (be32 w) = 4"
  by (simp add: be32_def)

lemma length_sha1: "length (sha1 msg) = 20"
proof -
  obtain h0 h1 h2 h3 h4 where
    "sha1_blocks (sha1_pad msg)
       (0x67452301, 0xEFCDAB89, 0x98BADCFE, 0x10325476, 0xC3D2E1F0) = (h0, h1, h2, h3, h4)"
    using prod_cases5 by blast
  then show ?thesis
    by (simp add: sha1_def)
qed

lemma length_b64encode: "length (b64encode bs) = 4 * ((length bs + 2) div 3)"
proof (induction bs rule: b64encode.induct)
  case (4 a b c rest)
  have "(length rest + 5) div 3 = Suc ((length rest + 2) div 3)"
    by presburger
  with 4 show ?case
    by (simp add: add.commute)
qed simp_all

lemma length_accept_token: "length (accept_token key) = 28"
  by (simp add: accept_token_def length_b64encode length_sha1)

text \<open>
  C2. For every key, the accept token is the base64 encoding of the SHA-1 digest of the key
  followed by the GUID \<^verbatim>\<open>258EAFA5-E914-47DA-95CA-C5AB0DC85B11\<close>, a function of the key alone;
  for the key \<^verbatim>\<open>dGhlIHNhbXBsZSBub25jZQ==\<close> it is \<^verbatim>\<open>s3pPLMBiTxaQ9kYGzzhZRbK+xOo=\<close>.
\<close>

theorem accept_token_correct:
  "(\<forall>key. accept_token key =
      b64encode (sha1 (encode (key @ ''258EAFA5-E914-47DA-95CA-C5AB0DC85B11''))))
   \<and> accept_token ''dGhlIHNhbXBsZSBub25jZQ=='' = ''s3pPLMBiTxaQ9kYGzzhZRbK+xOo=''"
proof
  show "\<forall>key. accept_token key =
      b64encode (sha1 (encode (key @ ''258EAFA5-E914-47DA-95CA-C5AB0DC85B11'')))"
    by (simp add: accept_token_def GUID_def)
  show "accept_token ''dGhlIHNhbXBsZSBub25jZQ=='' = ''s3pPLMBiTxaQ9kYGzzhZRbK+xOo=''"
    by (rule sample_accept_token)
qed

section \<open>Traces of the single steps\<close>

lemma trace_perform [simp]: "trace (perform who ev c) = trace c @ [(who, ev)]"
  by (cases ev) simp_all

lemma trace_perform_all [simp]: "trace (perform_all who evs c) = trace c @ map (Pair who) evs"
  by (induction evs arbitrary: c) simp_all

lemma trace_except_clause [simp]:
  "trace (except_clause c) =
     trace c @ [(Server, LoggerWarning ''Exception in connection handler''), (Server, TransportClose)]"
  by (simp add: except_clause_def)

lemma trace_run_ws_handler:
  "run_ws_handler h uri c = (r, c') \<Longrightarrow>
     \<exists>evs. trace c' = trace c @ (Server, WsHandlerCall uri) # map (Pair WsHandler) evs"
  by (auto simp: run_ws_handler_def yield_from_def Let_def)


section \<open>The outcomes of the handshake\<close>

lemma handshake_Raises: "handshake e c = (Raises exc, c') \<Longrightarrow> c' = c"
  by (auto simp: handshake_def Let_def split: result.splits sum.splits if_splits prod.splits)


lemma handshake_Returns:
  assumes "handshake e c = (Returns uri, c')"
  shows "\<exists>hdrs key lines.
     http_read_request e = Returns (uri, hdrs) \<and>
     handshake_check_request e (get_header hdrs) = Inr key \<and>
     handshake_build_response e set_header key
       [''HTTP/1.1 101 Switching Protocols'', ''Server: '' @ http_USER_AGENT e] = Inr lines \<and>
     c' = perform Server (OpeningHandshakeSetResult True)
            (perform Server (StateSet ''OPEN'')
              (perform Server (TransportWrite (join CRLF (lines @ [CRLF]))) c))"
  using assms
  by (auto simp: handshake_def Let_def set_header_def
      split: result.splits sum.splits if_splits prod.splits)

lemma handshake_malformed:
  assumes "http_read_request e = Raises exc" and "is_Exception exc"
  shows "handshake e c = (Raises (InvalidHandshake ''Malformed HTTP message'' (Some exc)), c)"
  using assms by (simp add: handshake_def)

lemma handshake_invalid:
  assumes "http_read_request e = Returns (uri, hdrs)"
    and "handshake_check_request e (get_header hdrs) = Inl exc"
  shows "handshake e c = (Raises exc, c)"
  using assms by (simp add: handshake_def)

section \<open>The paths through the handler\<close>

lemma handler_no_handler:
  assumes "ws_handler self = None"
  shows "handler e self = (Returns (), except_clause (conn self))"
  using assms by (simp add: handler_def handler_body_def)

lemma handler_handshake_Raises:
  assumes "ws_handler self = Some h" and "handshake e (conn self) = (Raises exc, c1)"
  shows "handler e self =
     (if is_Exception exc then (Returns (), except_clause c1) else (Raises exc, c1))"
  using assms by (simp add: handler_def handler_body_def)

lemma handler_handshake_Blocks:
  assumes "ws_handler self = Some h" and "handshake e (conn self) = (Blocks, c1)"
  shows "handler e self = (Blocks, c1)"
  using assms by (simp add: handler_def handler_body_def)

lemma handler_ws_handler_Raises:
  assumes "ws_handler self = Some h" and "handshake e (conn self) = (Returns uri, c1)"
    and "run_ws_handler h uri c1 = (Raises exc, c2)"
  shows "handler e self =
     (if is_Exception exc then (Returns (), except_clause c2) else (Raises exc, c2))"
  using assms by (simp add: handler_def handler_body_def)

lemma handler_ws_handler_Blocks:
  assumes "ws_handler self = Some h" and "handshake e (conn self) = (Returns uri, c1)"
    and "run_ws_handler h uri c1 = (Blocks, c2)"
  shows "handler e self = (Blocks, c2)"
  using assms by (simp add: handler_def handler_body_def)



lemma handler_close_Blocks:
  assumes "ws_handler self = Some h" and "handshake e (conn self) = (Returns uri, c1)"
    and "run_ws_handler h uri c1 = (Returns u, c2)" and "run_close e c2 = (Blocks, c3)"
  shows "handler e self = (Blocks, c3)"
  using assms by (simp add: handler_def handler_body_def)

section \<open>The sample connection, evaluated\<close>

lemma sample_handshake:
  "handshake sample_env c =
     (Returns ''/chat'',
      perform Server (OpeningHandshakeSetResult True)
        (perform Server (StateSet ''OPEN'')
          (perform Server (TransportWrite sample_response) c)))"
  by (simp add: handshake_def sample_env_def sample_headers_def get_header_def check_request_def
      build_response_def set_header_def lower_def lower_char_def sample_accept_token
      sample_response_def CRLF_def)

lemma keyless_handshake:
  "handshake keyless_env c = (Raises (InvalidHandshake ''Sec-WebSocket-Key'' None), c)"
  by (simp add: handshake_def keyless_env_def sample_env_def get_header_def check_request_def
      lower_def lower_char_def)

lemma malformed_handshake:
  "handshake malformed_env c =
     (Raises (InvalidHandshake ''Malformed HTTP message'' (Some (OtherException ''ValueError''))), c)"
  by (simp add: handshake_def malformed_env_def sample_env_def)

section \<open>The opening handshake: order of the steps\<close>

text \<open>
  C4. In every run of \<^verbatim>\<open>handshake\<close> that returns, the request was read and validated,
  and the handshake did exactly three things to the connection, in this order: it wrote the
  whole response (the status line, the \<^verbatim>\<open>Server\<close> header and the built headers, joined
  and terminated by CRLF) to the transport, it set the state to \<^verbatim>\<open>OPEN\<close>, and it resolved
  \<^verbatim>\<open>opening_handshake\<close>; what it returns is the URI of the request.
\<close>

theorem handshake_success_order:
  assumes "handshake e self = (Returns uri, self')"
  shows "\<exists>hdrs key lines.
     http_read_request e = Returns (uri, hdrs) \<and>
     handshake_check_request e (get_header hdrs) = Inr key \<and>
     handshake_build_response e set_header key
       [''HTTP/1.1 101 Switching Protocols'', ''Server: '' @ http_USER_AGENT e] = Inr lines \<and>
     trace self' = trace self @
       [(Server, TransportWrite (join CRLF (lines @ [CRLF]))),
        (Server, StateSet ''OPEN''),
        (Server, OpeningHandshakeSetResult True)] \<and>
     state self' = ''OPEN'' \<and> opening_handshake self' = Some True"
proof -
  from handshake_Returns [OF assms] obtain hdrs key lines where
    req: "http_read_request e = Returns (uri, hdrs)"
    and chk: "handshake_check_request e (get_header hdrs) = Inr key"
    and bld: "handshake_build_response e set_header key
       [''HTTP/1.1 101 Switching Protocols'', ''Server: '' @ http_USER_AGENT e] = Inr lines"
    and self': "self' = perform Server (OpeningHandshakeSetResult True)
            (perform Server (StateSet ''OPEN'')
              (perform Server (TransportWrite (join CRLF (lines @ [CRLF]))) self))"
    by blast
  have "trace self' = trace self @
       [(Server, TransportWrite (join CRLF (lines @ [CRLF]))),
        (Server, StateSet ''OPEN''),
        (Server, OpeningHandshakeSetResult True)]"
    by (simp add: self')
  moreover have "state self' = ''OPEN''" and "opening_handshake self' = Some True"
    by (simp_all add: self')
  ultimately show ?thesis
    using req chk bld by blast
qed

theorem handshake_success_order_witness:
  "\<exists>self'. handshake sample_env new_conn = (Returns ''/chat'', self') \<and>
     trace self' =
       [(Server, TransportWrite sample_response),
        (Server, StateSet ''OPEN''),
        (Server, OpeningHandshakeSetResult True)] \<and>
     state self' = ''OPEN'' \<and> opening_handshake self' = Some True"
proof -
  obtain self' where run: "handshake sample_env new_conn = (Returns ''/chat'', self')"
    and tr: "trace self' = trace new_conn @ [(Server, TransportWrite sample_response),
        (Server, StateSet ''OPEN''), (Server, OpeningHandshakeSetResult True)]"
    by (simp add: sample_handshake)
  from handshake_success_order [OF run]
  have "state self' = ''OPEN''" and "opening_handshake self' = Some True"
    by blast+
  with run tr show ?thesis
    by (simp add: new_conn_def)
qed

section \<open>A failed handshake\<close>

lemma state_except_clause [simp]: "state (except_clause c) = state c"
  by (simp add: except_clause_def)

lemma opening_handshake_except_clause [simp]:
  "opening_handshake (except_clause c) = opening_handshake c"
  by (simp add: except_clause_def)

text \<open>
  C10. When the handshake of a new connection fails (the request cannot be read, or it is
  not valid, or an exception goes through), the connection is left as it was; at the end of
  \<^verbatim>\<open>handler\<close> its state is still \<^verbatim>\<open>CONNECTING\<close>, \<^verbatim>\<open>opening_handshake\<close> is still pending, and
  nobody has set the state or resolved the signal.
\<close>

theorem handshake_failure_never_open:
  assumes "handshake e new_conn = (Raises exc, c1)"
    and "handler e (WebSocketServerProtocol (Some h)) = (r, c')"
  shows "c1 = new_conn \<and> state c' = ''CONNECTING'' \<and> opening_handshake c' = None \<and>
     (\<forall>who s. (who, StateSet s) \<notin> set (trace c')) \<and>
     (\<forall>who b. (who, OpeningHandshakeSetResult b) \<notin> set (trace c'))"
proof -
  have c1: "c1 = new_conn"
    using assms(1) by (rule handshake_Raises)
  have "handler e (WebSocketServerProtocol (Some h)) =
      (if is_Exception exc then (Returns (), except_clause new_conn) else (Raises exc, new_conn))"
    using assms(1) unfolding c1
    by (intro handler_handshake_Raises) (simp_all add: WebSocketServerProtocol_def)
  with assms(2) have "c' = except_clause new_conn \<or> c' = new_conn"
    by (simp split: if_splits)
  then show ?thesis
    using c1 by (auto simp: new_conn_def)
qed

theorem handshake_failure_never_open_witness:
  "handshake keyless_env new_conn = (Raises (InvalidHandshake ''Sec-WebSocket-Key'' None), new_conn) \<and>
   fst (handler keyless_env (WebSocketServerProtocol (Some hello_handler))) = Returns () \<and>
   state (snd (handler keyless_env (WebSocketServerProtocol (Some hello_handler)))) = ''CONNECTING'' \<and>
   opening_handshake (snd (handler keyless_env (WebSocketServerProtocol (Some hello_handler)))) = None"
proof -
  have run: "handler keyless_env (WebSocketServerProtocol (Some hello_handler)) =
      (Returns (), except_clause new_conn)"
    using handler_handshake_Raises [of "WebSocketServerProtocol (Some hello_handler)"
        hello_handler keyless_env _ new_conn]
    by (simp add: keyless_handshake WebSocketServerProtocol_def)
  from handshake_failure_never_open [OF keyless_handshake run] keyless_handshake run
  show ?thesis
    by simp
qed

text \<open>
  C6. When the handshake fails because the request cannot be read (\<^verbatim>\<open>read_request\<close>
  raises an instance of \<^verbatim>\<open>Exception\<close>) or because the request is not a valid handshake
  (\<^verbatim>\<open>check_request\<close> raises \<^verbatim>\<open>InvalidHandshake\<close>), the handshake raises
  \<^verbatim>\<open>InvalidHandshake\<close> and \<^verbatim>\<open>handler\<close> catches it: it logs a warning, closes the
  transport and returns. Nothing is raised out of \<^verbatim>\<open>handler\<close>.
\<close>

theorem handshake_failure_contained:
  assumes "ws_handler self = Some h"
    and "(\<exists>exc. http_read_request e = Raises exc \<and> is_Exception exc) \<or>
         (\<exists>uri hdrs msg cause. http_read_request e = Returns (uri, hdrs) \<and>
            handshake_check_request e (get_header hdrs) = Inl (InvalidHandshake msg cause))"
  shows "(\<exists>msg cause. handshake e (conn self) = (Raises (InvalidHandshake msg cause), conn self)) \<and>
     (\<exists>c'. handler e self = (Returns (), c') \<and>
        trace c' = trace (conn self) @
          [(Server, LoggerWarning ''Exception in connection handler''), (Server, TransportClose)])"
proof -
  from assms(2) obtain msg cause where
    hs: "handshake e (conn self) = (Raises (InvalidHandshake msg cause), conn self)"
    by (auto simp: handshake_malformed handshake_invalid)
  have "handler e self = (Returns (), except_clause (conn self))"
    using handler_handshake_Raises [OF assms(1) hs] by simp
  with hs show ?thesis
    by auto
qed

theorem handshake_failure_contained_witness:
  "handler malformed_env (WebSocketServerProtocol (Some hello_handler)) =
     (Returns (), except_clause new_conn) \<and>
   handler keyless_env (WebSocketServerProtocol (Some hello_handler)) =
     (Returns (), except_clause new_conn) \<and>
   trace (except_clause new_conn) =
     [(Server, LoggerWarning ''Exception in connection handler''), (Server, TransportClose)]"
proof -
  let ?self = "WebSocketServerProtocol (Some hello_handler)"
  have h: "ws_handler ?self = Some hello_handler" and c: "conn ?self = new_conn"
    by (simp_all add: WebSocketServerProtocol_def)
  have m: "(\<exists>exc. http_read_request malformed_env = Raises exc \<and> is_Exception exc) \<or>
         (\<exists>uri hdrs msg cause. http_read_request malformed_env = Returns (uri, hdrs) \<and>
            handshake_check_request malformed_env (get_header hdrs) = Inl (InvalidHandshake msg cause))"
    by (simp add: malformed_env_def sample_env_def)
  have k: "(\<exists>exc. http_read_request keyless_env = Raises exc \<and> is_Exception exc) \<or>
         (\<exists>uri hdrs msg cause. http_read_request keyless_env = Returns (uri, hdrs) \<and>
            handshake_check_request keyless_env (get_header hdrs) = Inl (InvalidHandshake msg cause))"
    by (simp add: keyless_env_def sample_env_def get_header_def check_request_def
        lower_def lower_char_def)
  from handshake_failure_contained [OF h m] handshake_failure_contained [OF h k]
  have "\<exists>c'. handler malformed_env ?self = (Returns (), c') \<and> trace c' = trace new_conn @
          [(Server, LoggerWarning ''Exception in connection handler''), (Server, TransportClose)]"
    and "\<exists>c'. handler keyless_env ?self = (Returns (), c') \<and> trace c' = trace new_conn @
          [(Server, LoggerWarning ''Exception in connection handler''), (Server, TransportClose)]"
    unfolding c by blast+
  moreover have "handler malformed_env ?self = (Returns (), except_clause new_conn)"
    using handler_handshake_Raises [OF h, of malformed_env _ new_conn]
    by (simp add: c malformed_handshake)
  moreover have "handler keyless_env ?self = (Returns (), except_clause new_conn)"
    using handler_handshake_Raises [OF h, of keyless_env _ new_conn]
    by (simp add: c keyless_handshake)
  ultimately show ?thesis
    by (simp add: new_conn_def)
qed

lemma check_request_invalid:
  assumes "get_hdr ''Sec-WebSocket-Key'' = [] \<or> lower (get_hdr ''Upgrade'') \<noteq> ''websocket''"
  shows "\<exists>requirement. check_request check_version get_hdr =
           Inl (InvalidHandshake requirement None)"
  using assms
  by (cases "lower (get_hdr ''Upgrade'') = ''websocket''") (simp_all add: check_request_def)

lemma get_header_absent: "hdrs k = None \<Longrightarrow> get_header hdrs k = []"
  by (simp add: get_header_def)

text \<open>
  C5. When the request has no \<^verbatim>\<open>Sec-WebSocket-Key\<close> header, or its \<^verbatim>\<open>Upgrade\<close> header does
  not name the WebSocket protocol, validation raises \<^verbatim>\<open>InvalidHandshake\<close>, the handshake of
  a new connection fails with it and leaves the connection untouched, and in the whole run of \<^verbatim>\<open>handler\<close>
  nothing is written to the transport.
\<close>

theorem invalid_request_writes_nothing:
  assumes "http_read_request e = Returns (uri, hdrs)"
    and "handshake_check_request e = check_request check_version"
    and "hdrs ''Sec-WebSocket-Key'' = None \<or> lower (get_header hdrs ''Upgrade'') \<noteq> ''websocket''"
  shows "(\<exists>requirement. check_request check_version (get_header hdrs) =
             Inl (InvalidHandshake requirement None) \<and>
           handshake e new_conn = (Raises (InvalidHandshake requirement None), new_conn)) \<and>
         (\<exists>c'. handler e (WebSocketServerProtocol (Some h)) = (Returns (), c') \<and>
            (\<forall>who bytes. (who, TransportWrite bytes) \<notin> set (trace c')))"
proof -
  from assms(3) obtain requirement where
    chk: "check_request check_version (get_header hdrs) = Inl (InvalidHandshake requirement None)"
    using check_request_invalid [of "get_header hdrs" check_version]
    by (auto simp: get_header_absent)
  then have hs: "handshake e new_conn = (Raises (InvalidHandshake requirement None), new_conn)"
    using assms(1,2) by (simp add: handshake_invalid)
  have "handler e (WebSocketServerProtocol (Some h)) = (Returns (), except_clause new_conn)"
    using handler_handshake_Raises [of "WebSocketServerProtocol (Some h)" h e _ new_conn] hs
    by (simp add: WebSocketServerProtocol_def)
  moreover have "\<forall>who bytes. (who, TransportWrite bytes) \<notin> set (trace (except_clause new_conn))"
    by (simp add: new_conn_def)
  ultimately show ?thesis
    using chk hs by blast
qed

theorem invalid_request_writes_nothing_witness:
  "trace (snd (handler keyless_env (WebSocketServerProtocol (Some hello_handler)))) =
     [(Server, LoggerWarning ''Exception in connection handler''), (Server, TransportClose)] \<and>
   (\<exists>c'. handler (sample_env\<lparr>http_read_request := Returns (''/'', [''Host'' \<mapsto> ''example.com''])\<rparr>)
            (WebSocketServerProtocol (Some hello_handler)) = (Returns (), c') \<and>
      (\<forall>who bytes. (who, TransportWrite bytes) \<notin> set (trace c')))"
proof -
  let ?plain = "sample_env\<lparr>http_read_request := Returns (''/'', [''Host'' \<mapsto> ''example.com''])\<rparr>"
  have k1: "http_read_request keyless_env =
      Returns (''/chat'', [''Host'' \<mapsto> ''server.example.com'', ''Upgrade'' \<mapsto> ''websocket'',
                           ''Connection'' \<mapsto> ''Upgrade'', ''Sec-WebSocket-Version'' \<mapsto> ''13''])"
    and k2: "handshake_check_request keyless_env = check_request True"
    by (simp_all add: keyless_env_def sample_env_def)
  have k3: "[''Host'' \<mapsto> ''server.example.com'', ''Upgrade'' \<mapsto> ''websocket'',
             ''Connection'' \<mapsto> ''Upgrade'', ''Sec-WebSocket-Version'' \<mapsto> ''13'']
              ''Sec-WebSocket-Key'' = None \<or>
            lower (get_header [''Host'' \<mapsto> ''server.example.com'', ''Upgrade'' \<mapsto> ''websocket'',
             ''Connection'' \<mapsto> ''Upgrade'', ''Sec-WebSocket-Version'' \<mapsto> ''13''] ''Upgrade'')
              \<noteq> ''websocket''"
    by simp
  have p1: "http_read_request ?plain = Returns (''/'', [''Host'' \<mapsto> ''example.com''])"
    and p2: "handshake_check_request ?plain = check_request True"
    by (simp_all add: sample_env_def)
  have p3: "[''Host'' \<mapsto> ''example.com''] ''Sec-WebSocket-Key'' = None \<or>
            lower (get_header [''Host'' \<mapsto> ''example.com''] ''Upgrade'') \<noteq> ''websocket''"
    by simp
  have "handler keyless_env (WebSocketServerProtocol (Some hello_handler)) =
      (Returns (), except_clause new_conn)"
    using invalid_request_writes_nothing [OF k1 k2 k3, of hello_handler]
      handler_handshake_Raises [of "WebSocketServerProtocol (Some hello_handler)"
        hello_handler keyless_env _ new_conn]
    by (simp add: keyless_handshake WebSocketServerProtocol_def)
  then have "trace (snd (handler keyless_env (WebSocketServerProtocol (Some hello_handler)))) =
     [(Server, LoggerWarning ''Exception in connection handler''), (Server, TransportClose)]"
    by (simp add: new_conn_def)
  with invalid_request_writes_nothing [OF p1 p2 p3, of hello_handler] show ?thesis
    by blast
qed

section \<open>Counting in traces\<close>

lemma closes_by_Nil [simp]: "closes_by who [] = 0"
  by (simp add: closes_by_def)

lemma closes_by_append [simp]: "closes_by who (xs @ ys) = closes_by who xs + closes_by who ys"
  by (simp add: closes_by_def)

lemma closes_by_Cons [simp]:
  "closes_by who (x # xs) = (if x = (who, TransportClose) then 1 else 0) + closes_by who xs"
  by (simp add: closes_by_def)

lemma closes_by_other [simp]: "who' \<noteq> who \<Longrightarrow> closes_by who (map (Pair who') evs) = 0"
  by (induction evs) simp_all

lemma response_writes_Nil [simp]: "response_writes [] = 0"
  by (simp add: response_writes_def)

lemma response_writes_append [simp]:
  "response_writes (xs @ ys) = response_writes xs + response_writes ys"
  by (simp add: response_writes_def)

lemma response_writes_Cons [simp]:
  "response_writes (x # xs) =
     (if fst x = Server \<and> is_TransportWrite (snd x) then 1 else 0) + response_writes xs"
  by (simp add: response_writes_def)

lemma response_writes_other [simp]:
  "who \<noteq> Server \<Longrightarrow> response_writes (map (Pair who) evs) = 0"
  by (induction evs) simp_all

lemma server_events_Nil [simp]: "server_events [] = []"
  by (simp add: server_events_def)

lemma server_events_append [simp]:
  "server_events (xs @ ys) = server_events xs @ server_events ys"
  by (simp add: server_events_def)

lemma server_events_Cons [simp]:
  "server_events (x # xs) = (if fst x = Server then [snd x] else []) @ server_events xs"
  by (simp add: server_events_def)

lemma server_events_other [simp]:
  "who \<noteq> Server \<Longrightarrow> server_events (map (Pair who) evs) = []"
  by (induction evs) simp_all

text \<open>What \<^verbatim>\<open>server.py\<close> itself does in each of the three steps.\<close>

lemma server_events_handshake:
  assumes "handshake e c = (Returns uri, c1)"
  shows "\<exists>response. server_events (trace c1) = server_events (trace c) @
     [TransportWrite response, StateSet ''OPEN'', OpeningHandshakeSetResult True]"
  using handshake_Returns [OF assms] by auto

lemma server_events_run_ws_handler:
  assumes "run_ws_handler h uri c = (r, c')"
  shows "server_events (trace c') = server_events (trace c) @ [WsHandlerCall uri]"
  using trace_run_ws_handler [OF assms] by auto


lemma server_events_except_clause [simp]:
  "server_events (trace (except_clause c)) = server_events (trace c) @
     [LoggerWarning ''Exception in connection handler'', TransportClose]"
  by simp



lemma new_protocol [simp]:
  "ws_handler (WebSocketServerProtocol wh) = wh" "conn (WebSocketServerProtocol wh) = new_conn"
  by (simp_all add: WebSocketServerProtocol_def)

lemma trace_new_conn [simp]: "trace new_conn = []"
  by (simp add: new_conn_def)

section \<open>The sample connection, run to its end\<close>

lemma sample_run_ws_handler_hello:
  "run_ws_handler hello_handler uri c =
     (Returns (), perform WsHandler (TransportWrite ([CHR 0x81, CHR 0x05] @ ''Hello''))
        (perform Server (WsHandlerCall uri) c))"
  by (simp add: run_ws_handler_def yield_from_def hello_handler_def)

lemma sample_run_ws_handler_failing:
  "run_ws_handler failing_handler uri c =
     (Raises (OtherException ''ValueError''), perform Server (WsHandlerCall uri) c)"
  by (simp add: run_ws_handler_def yield_from_def failing_handler_def)


lemma sample_run_close_failing:
  "run_close (sample_env\<lparr>protocol_close := failing_close\<rparr>) c =
     (Raises (OtherException ''TimeoutError''), perform CloseCoro (StateSet ''CLOSING'')
        (perform CloseCoro (TransportWrite [CHR 0x88, CHR 0x00]) (perform Server CloseCall c)))"
  by (simp add: run_close_def yield_from_def failing_close_def)

lemma sample_handshake_failing_close:
  "handshake (sample_env\<lparr>protocol_close := failing_close\<rparr>) c = handshake sample_env c"
  by (simp add: handshake_def Let_def split: result.splits sum.splits prod.splits)


lemma sample_handler_failing_handler:
  "fst (handler sample_env (WebSocketServerProtocol (Some failing_handler))) = Returns ()"
  "trace (snd (handler sample_env (WebSocketServerProtocol (Some failing_handler)))) =
     [(Server, TransportWrite sample_response),
      (Server, StateSet ''OPEN''),
      (Server, OpeningHandshakeSetResult True),
      (Server, WsHandlerCall ''/chat''),
      (Server, LoggerWarning ''Exception in connection handler''),
      (Server, TransportClose)]"
  by (simp_all add: handler_def handler_body_def sample_handshake sample_run_ws_handler_failing)

lemma sample_handler_failing_close:
  "fst (handler (sample_env\<lparr>protocol_close := failing_close\<rparr>)
         (WebSocketServerProtocol (Some hello_handler))) = Returns ()"
  "trace (snd (handler (sample_env\<lparr>protocol_close := failing_close\<rparr>)
         (WebSocketServerProtocol (Some hello_handler)))) =
     [(Server, TransportWrite sample_response),
      (Server, StateSet ''OPEN''),
      (Server, OpeningHandshakeSetResult True),
      (Server, WsHandlerCall ''/chat''),
      (WsHandler, TransportWrite ([CHR 0x81, CHR 0x05] @ ''Hello'')),
      (Server, CloseCall),
      (CloseCoro, TransportWrite [CHR 0x88, CHR 0x00]),
      (CloseCoro, StateSet ''CLOSING''),
      (Server, LoggerWarning ''Exception in connection handler''),
      (Server, TransportClose)]"
  by (simp_all add: handler_def handler_body_def sample_handshake_failing_close sample_handshake
      sample_run_ws_handler_hello sample_run_close_failing)


section \<open>Closing the transport\<close>





lemma closes_by_Server_except_clause [simp]:
  "closes_by Server (trace (except_clause c)) = closes_by Server (trace c) + 1"
  by simp








section \<open>A handler that raises\<close>

text \<open>
  C3, as the code has it. When the handshake of a new connection has succeeded and the
  user's handler raises an instance of \<^verbatim>\<open>Exception\<close>, \<^verbatim>\<open>handler\<close> catches it and
  returns; \<^verbatim>\<open>server.py\<close> has written the response, opened the connection, called the
  handler, logged a warning and closed the transport, and has not called \<^verbatim>\<open>close\<close>: the
  closing handshake is skipped.
\<close>

theorem handler_failure_skips_close:
  assumes "handshake e new_conn = (Returns uri, c1)"
    and "run_ws_handler h uri c1 = (Raises exc, c2)" and "is_Exception exc"
  shows "fst (handler e (WebSocketServerProtocol (Some h))) = Returns () \<and>
     (\<exists>response. server_events (trace (snd (handler e (WebSocketServerProtocol (Some h))))) =
        [TransportWrite response, StateSet ''OPEN'', OpeningHandshakeSetResult True,
         WsHandlerCall uri,
         LoggerWarning ''Exception in connection handler'', TransportClose]) \<and>
     (Server, CloseCall) \<notin> set (trace (snd (handler e (WebSocketServerProtocol (Some h)))))"
proof -
  have fin: "handler e (WebSocketServerProtocol (Some h)) = (Returns (), except_clause c2)"
    using handler_ws_handler_Raises [of "WebSocketServerProtocol (Some h)" h e uri c1 exc c2]
      assms by simp
  from server_events_handshake [OF assms(1)] obtain response where
    "server_events (trace c1) =
       [TransportWrite response, StateSet ''OPEN'', OpeningHandshakeSetResult True]"
    by auto
  with server_events_run_ws_handler [OF assms(2)]
  have ev: "server_events (trace (except_clause c2)) =
        [TransportWrite response, StateSet ''OPEN'', OpeningHandshakeSetResult True,
         WsHandlerCall uri,
         LoggerWarning ''Exception in connection handler'', TransportClose]"
    by simp
  have "CloseCall \<notin> set (server_events (trace (except_clause c2)))"
    unfolding ev by simp
  then have "(Server, CloseCall) \<notin> set (trace (except_clause c2))"
    by (force simp: server_events_def)
  with fin ev show ?thesis
    by simp
qed

theorem handler_failure_skips_close_witness:
  "fst (handler sample_env (WebSocketServerProtocol (Some failing_handler))) = Returns () \<and>
   (\<exists>response. server_events
        (trace (snd (handler sample_env (WebSocketServerProtocol (Some failing_handler))))) =
        [TransportWrite response, StateSet ''OPEN'', OpeningHandshakeSetResult True,
         WsHandlerCall ''/chat'',
         LoggerWarning ''Exception in connection handler'', TransportClose]) \<and>
   (Server, CloseCall) \<notin>
     set (trace (snd (handler sample_env (WebSocketServerProtocol (Some failing_handler)))))"
proof -
  obtain c1 where hs: "handshake sample_env new_conn = (Returns ''/chat'', c1)"
    by (simp add: sample_handshake)
  obtain c2 where run: "run_ws_handler failing_handler ''/chat'' c1 =
      (Raises (OtherException ''ValueError''), c2)"
    by (simp add: sample_run_ws_handler_failing)
  have "is_Exception (OtherException ''ValueError'')"
    by simp
  from handler_failure_skips_close [OF hs run this] show ?thesis .
qed

text \<open>C3 as stated fails: the whole trace of the sample connection with a handler that
  raises. The closing handshake is not among its events.\<close>

theorem failing_handler_trace:
  "trace (snd (handler sample_env (WebSocketServerProtocol (Some failing_handler)))) =
     [(Server, TransportWrite sample_response),
      (Server, StateSet ''OPEN''),
      (Server, OpeningHandshakeSetResult True),
      (Server, WsHandlerCall ''/chat''),
      (Server, LoggerWarning ''Exception in connection handler''),
      (Server, TransportClose)] \<and>
   (Server, CloseCall) \<notin>
     set (trace (snd (handler sample_env (WebSocketServerProtocol (Some failing_handler)))))"
  by (simp add: sample_handler_failing_handler)

section \<open>The response is written at most once\<close>




lemma response_writes_except_clause [simp]:
  "response_writes (trace (except_clause c)) = response_writes (trace c)"
  by simp






section \<open>Configuration\<close>

text \<open>
  C7, as the code has it. Constructing the protocol or the server without a handler raises
  nothing: \<^verbatim>\<open>__init__\<close> stores \<^verbatim>\<open>None\<close>, and \<^verbatim>\<open>serve\<close> goes on to \<^verbatim>\<open>create_server\<close>
  with a factory of such protocols. The missing handler is found in the \<^verbatim>\<open>handler\<close> coroutine of each
  connection, before the handshake: \<^verbatim>\<open>NotImplementedError\<close> is raised in the \<^verbatim>\<open>try\<close> block
  and caught by its \<^verbatim>\<open>except\<close> clause, so that the coroutine logs a warning, closes the
  transport and returns.
\<close>

theorem missing_handler_found_per_connection:
  "ws_handler (WebSocketServerProtocol None) = None \<and>
   serve None host port [] [] WebSocketServerProtocol create_server w =
     create_server (\<lambda>_. WebSocketServerProtocol None) host port w \<and>
   handler_body e (WebSocketServerProtocol None) =
     (Raises (NotImplementedError ''No handler defined''), new_conn) \<and>
   fst (handler e (WebSocketServerProtocol None)) = Returns () \<and>
   trace (snd (handler e (WebSocketServerProtocol None))) =
     [(Server, LoggerWarning ''Exception in connection handler''), (Server, TransportClose)]"
  by (simp add: serve_def handler_body_def handler_no_handler)

text \<open>C7 as stated fails: a server without handler is created, its socket bound, and a
  connection to it ends with a warning in the log and nothing raised.\<close>

theorem server_without_handler_starts:
  "serve None ''localhost'' 8765 [] [] WebSocketServerProtocol sample_create_server [] =
     (Returns (\<lambda>_. WebSocketServerProtocol None), [(''localhost'', 8765)]) \<and>
   fst (handler sample_env (WebSocketServerProtocol None)) = Returns () \<and>
   trace (snd (handler sample_env (WebSocketServerProtocol None))) =
     [(Server, LoggerWarning ''Exception in connection handler''), (Server, TransportClose)]"
  by (simp add: serve_def sample_create_server_def handler_no_handler)

text \<open>
  C8. With a non-empty \<^verbatim>\<open>protocols\<close> or \<^verbatim>\<open>extensions\<close> argument, \<^verbatim>\<open>serve\<close> raises
  \<^verbatim>\<open>AssertionError\<close> whatever \<^verbatim>\<open>create_server\<close> is, and leaves the event loop as it was:
  \<^verbatim>\<open>create_server\<close> is not reached and no socket is bound. With both empty, \<^verbatim>\<open>serve\<close> is
  \<^verbatim>\<open>create_server\<close> applied to the protocol factory, the host and the port.
\<close>

theorem serve_rejects_negotiation:
  "(protocols \<noteq> [] \<or> extensions \<noteq> [] \<longrightarrow>
      (\<exists>msg. serve h host port protocols extensions klass create_server w =
         (Raises (AssertionError msg), w))) \<and>
   (protocols = [] \<and> extensions = [] \<longrightarrow>
      serve h host port protocols extensions klass create_server w =
        create_server (\<lambda>_. klass h) host port w)"
  by (simp add: serve_def)

theorem serve_rejects_negotiation_witness:
  "serve (Some hello_handler) ''localhost'' 8765 [''chat''] ([] :: string list)
       WebSocketServerProtocol sample_create_server [] =
     (Raises (AssertionError ''protocols aren't supported''), []) \<and>
   serve (Some hello_handler) ''localhost'' 8765 ([] :: string list) [''deflate'']
       WebSocketServerProtocol sample_create_server [] =
     (Raises (AssertionError ''extensions aren't supported''), []) \<and>
   serve (Some hello_handler) ''localhost'' 8765 ([] :: string list) ([] :: string list)
       WebSocketServerProtocol sample_create_server [] =
     (Returns (\<lambda>_. WebSocketServerProtocol (Some hello_handler)), [(''localhost'', 8765)])"
proof -
  note a = serve_rejects_negotiation [of "[''chat'']" "[] :: string list"
      "Some hello_handler" "''localhost''" "8765 :: nat" WebSocketServerProtocol
      sample_create_server "[]"]
  note b = serve_rejects_negotiation [of "[] :: string list" "[''deflate'']"
      "Some hello_handler" "''localhost''" "8765 :: nat" WebSocketServerProtocol
      sample_create_server "[]"]
  note c = serve_rejects_negotiation [of "[] :: string list" "[] :: string list"
      "Some hello_handler" "''localhost''" "8765 :: nat" WebSocketServerProtocol
      sample_create_server "[]"]
  have "serve (Some hello_handler) ''localhost'' 8765 [''chat''] ([] :: string list)
       WebSocketServerProtocol sample_create_server [] =
     (Raises (AssertionError ''protocols aren't supported''), [])"
    using a by (simp add: serve_def)
  moreover have "serve (Some hello_handler) ''localhost'' 8765 ([] :: string list) [''deflate'']
       WebSocketServerProtocol sample_create_server [] =
     (Raises (AssertionError ''extensions aren't supported''), [])"
    using b by (simp add: serve_def)
  moreover have "serve (Some hello_handler) ''localhost'' 8765 ([] :: string list)
       ([] :: string list) WebSocketServerProtocol sample_create_server [] =
     (Returns (\<lambda>_. WebSocketServerProtocol (Some hello_handler)), [(''localhost'', 8765)])"
    using c by (simp add: sample_create_server_def)
  ultimately show ?thesis
    by (intro conjI)
qed

end
